theory Spec2Isabelle
  imports Main "HOL-Library.Word"
begin

section \<open>Large objects of the Aerospike Go client (large_object.go)\<close>

text \<open>
  The file large_object.go holds the shared base of the large data types: a handle
  (\<open>baseLargeObject\<close>) built by \<open>newLargeObject\<close>, and six methods that each make one
  call of \<open>Client.Execute\<close> and convert what comes back. The development below embeds
  the constructor and the six methods and proves the properties of the specification
  about them.
\<close>

subsection \<open>Values\<close>

text \<open>Go's \<open>int\<close>, taken at its 64-bit width. The code does no arithmetic on it: it
  passes integers through and returns the constants \<open>-1\<close> and \<open>0\<close>.\<close>

type_synonym go_int = "64 word"

text \<open>Modelled from the spec: the type \<open>Value\<close> and its constructors \<open>NewNullValue\<close>,
  \<open>NewStringValue\<close> and \<open>NewIntegerValue\<close> are declared in another file of the
  package. The specification calls them the store's value representation, with an
  explicit null ("no module") value that is not a string; only the three kinds that
  large_object.go builds are listed.\<close>

datatype Value = NullValue | StringValue string | IntegerValue go_int

definition NewNullValue :: Value where
  "NewNullValue = NullValue"

definition NewStringValue :: "string \<Rightarrow> Value" where
  "NewStringValue s = StringValue s"

definition NewIntegerValue :: "go_int \<Rightarrow> Value" where
  "NewIntegerValue n = IntegerValue n"

text \<open>What \<open>Execute\<close> hands back is an \<open>interface{}\<close>: the nil interface, or a value
  with a dynamic type. The dynamic types listed are the ones the methods assert
  (\<open>int\<close>, \<open>map[interface{}]interface{}\<close>, \<open>[]interface{}\<close>) and a string as a type
  none of them asserts. A Go map or slice is itself nil or not, hence the
  \<open>option\<close>: \<open>None\<close> is the nil map or slice, \<open>Some []\<close> an empty one. A map is kept
  as the list of its entries, which this code never looks into.\<close>

datatype any =
    ANil
  | AInt go_int
  | AString string
  | ASlice "any list option"
  | AMap "(any \<times> any) list option"

text \<open>A failed type assertion \<open>x.(T)\<close> panics; the panic is a result of its own,
  apart from the \<open>error\<close> a method returns.\<close>

datatype panic = InterfaceConversion

subsection \<open>The handle and the interface\<close>

text \<open>The struct \<open>baseLargeObject\<close>. Client, policy and key are pointers that the
  code only stores and passes on, so their types are left open.\<close>

record ('c, 'p, 'k) baseLargeObject =
  client :: 'c
  policy :: 'p
  key :: 'k
  binName :: Value
  userModule :: Value

text \<open>The interface \<open>LargeObject\<close>, as far as the base uses it: the method
  \<open>packageName\<close> of the concrete kind. The receiver and the interface value are
  taken as present (the concrete kinds pass themselves).\<close>

record LargeObject =
  packageName :: string

definition newLargeObject ::
  "'c \<Rightarrow> 'p \<Rightarrow> 'k \<Rightarrow> string \<Rightarrow> string \<Rightarrow> ('c, 'p, 'k) baseLargeObject" where
  "newLargeObject cl pol ky bin_name user_module =
     \<lparr> client = cl, policy = pol, key = ky,
       binName = NewStringValue bin_name,
       userModule = (if user_module = [] then NewNullValue
                     else NewStringValue user_module) \<rparr>"

subsection \<open>The executor\<close>

text \<open>\<open>Client.Execute\<close> is outside this file, so it is a parameter of every method:
  a function of the client, the policy, the key, the package name, the function name
  and the argument values. It is a remote call, so it also reads and changes a state
  \<open>'w\<close> (the connection and the server), and two calls with the same arguments may
  answer differently. It returns an untyped result and an error, \<open>None\<close> being Go's
  nil error.\<close>

type_synonym ('c, 'p, 'k, 'e, 'w) executor =
  "'c \<Rightarrow> 'p \<Rightarrow> 'k \<Rightarrow> string \<Rightarrow> string \<Rightarrow> Value list \<Rightarrow> 'w \<Rightarrow> (any \<times> 'e option) \<times> 'w"

subsection \<open>The six methods\<close>

definition destroy ::
  "('c, 'p, 'k, 'e, 'w) executor \<Rightarrow> ('c, 'p, 'k) baseLargeObject \<Rightarrow> LargeObject \<Rightarrow> 'w
     \<Rightarrow> 'e option \<times> 'w" where
  "destroy Execute lo ifc w =
     (case Execute (client lo) (policy lo) (key lo) (packageName ifc) ''destroy'' [binName lo] w of
        ((_, err), w') \<Rightarrow> (err, w'))"

definition size_lo ::
  "('c, 'p, 'k, 'e, 'w) executor \<Rightarrow> ('c, 'p, 'k) baseLargeObject \<Rightarrow> LargeObject \<Rightarrow> 'w
     \<Rightarrow> (panic + go_int \<times> 'e option) \<times> 'w" where
  "size_lo Execute lo ifc w =
     (case Execute (client lo) (policy lo) (key lo) (packageName ifc) ''size'' [binName lo] w of
        ((ret, err), w') \<Rightarrow>
          if err \<noteq> None then (Inr (- 1, err), w')
          else if ret \<noteq> ANil then
            (case ret of
               AInt n \<Rightarrow> (Inr (n, None), w')
             | _ \<Rightarrow> (Inl InterfaceConversion, w'))
          else (Inr (0, None), w'))"

definition getConfig ::
  "('c, 'p, 'k, 'e, 'w) executor \<Rightarrow> ('c, 'p, 'k) baseLargeObject \<Rightarrow> LargeObject \<Rightarrow> 'w
     \<Rightarrow> (panic + (any \<times> any) list option \<times> 'e option) \<times> 'w" where
  "getConfig Execute lo ifc w =
     (case Execute (client lo) (policy lo) (key lo) (packageName ifc) ''get_config'' [binName lo] w of
        ((res, err), w') \<Rightarrow>
          if err \<noteq> None then (Inr (None, err), w')
          else if res = ANil then (Inr (None, None), w')
          else
            (case res of
               AMap m \<Rightarrow> (Inr (m, err), w')
             | _ \<Rightarrow> (Inl InterfaceConversion, w')))"

definition setCapacity ::
  "('c, 'p, 'k, 'e, 'w) executor \<Rightarrow> ('c, 'p, 'k) baseLargeObject \<Rightarrow> LargeObject \<Rightarrow> go_int
     \<Rightarrow> 'w \<Rightarrow> 'e option \<times> 'w" where
  "setCapacity Execute lo ifc capacity w =
     (case Execute (client lo) (policy lo) (key lo) (packageName ifc) ''set_capacity''
             [binName lo, NewIntegerValue capacity] w of
        ((_, err), w') \<Rightarrow> (err, w'))"

definition getCapacity ::
  "('c, 'p, 'k, 'e, 'w) executor \<Rightarrow> ('c, 'p, 'k) baseLargeObject \<Rightarrow> LargeObject \<Rightarrow> 'w
     \<Rightarrow> (panic + go_int \<times> 'e option) \<times> 'w" where
  "getCapacity Execute lo ifc w =
     (case Execute (client lo) (policy lo) (key lo) (packageName ifc) ''get_capacity'' [binName lo] w of
        ((ret, err), w') \<Rightarrow>
          if err \<noteq> None then (Inr (- 1, err), w')
          else
            (case ret of
               AInt n \<Rightarrow> (Inr (n, None), w')
             | _ \<Rightarrow> (Inl InterfaceConversion, w')))"

definition scan ::
  "('c, 'p, 'k, 'e, 'w) executor \<Rightarrow> ('c, 'p, 'k) baseLargeObject \<Rightarrow> LargeObject \<Rightarrow> 'w
     \<Rightarrow> (panic + any list option \<times> 'e option) \<times> 'w" where
  "scan Execute lo ifc w =
     (case Execute (client lo) (policy lo) (key lo) (packageName ifc) ''scan'' [binName lo] w of
        ((ret, err), w') \<Rightarrow>
          if err \<noteq> None then (Inr (None, err), w')
          else if ret = ANil then (Inr (Some [], None), w')
          else
            (case ret of
               ASlice xs \<Rightarrow> (Inr (xs, None), w')
             | _ \<Rightarrow> (Inl InterfaceConversion, w')))"

subsection \<open>Stub executors\<close>

text \<open>A stub that gives the same answer to every call and leaves the state alone.\<close>

definition answering :: "any \<times> 'e option \<Rightarrow> ('c, 'p, 'k, 'e, 'w) executor" where
  "answering a cl pol ky pkg fn args w = (a, w)"

text \<open>A stub that keeps, as its state, the list of the calls made so far, each with
  everything that was passed to \<open>Execute\<close>, the receiver included. The answer may
  depend on the call in any way.\<close>

type_synonym ('c, 'p, 'k) call = "'c \<times> 'p \<times> 'k \<times> string \<times> string \<times> Value list"

definition recording ::
  "(('c, 'p, 'k) call \<Rightarrow> any \<times> 'e option)
     \<Rightarrow> ('c, 'p, 'k, 'e, ('c, 'p, 'k) call list) executor" where
  "recording respond cl pol ky pkg fn args calls =
     (respond (cl, pol, ky, pkg, fn, args), calls @ [(cl, pol, ky, pkg, fn, args)])"

section \<open>The calls each method makes\<close>

lemma destroy_calls:
  "snd (destroy (recording r) lo ifc cs)
     = cs @ [(client lo, policy lo, key lo, packageName ifc, ''destroy'', [binName lo])]"
  by (simp add: destroy_def recording_def split: prod.splits)

lemma size_calls:
  "snd (size_lo (recording r) lo ifc cs)
     = cs @ [(client lo, policy lo, key lo, packageName ifc, ''size'', [binName lo])]"
  by (simp add: size_lo_def recording_def split: prod.splits any.splits)

lemma getConfig_calls:
  "snd (getConfig (recording r) lo ifc cs)
     = cs @ [(client lo, policy lo, key lo, packageName ifc, ''get_config'', [binName lo])]"
  by (simp add: getConfig_def recording_def split: prod.splits any.splits)

lemma setCapacity_calls:
  "snd (setCapacity (recording r) lo ifc n cs)
     = cs @ [(client lo, policy lo, key lo, packageName ifc, ''set_capacity'',
              [binName lo, IntegerValue n])]"
  by (simp add: setCapacity_def recording_def NewIntegerValue_def split: prod.splits)

lemma getCapacity_calls:
  "snd (getCapacity (recording r) lo ifc cs)
     = cs @ [(client lo, policy lo, key lo, packageName ifc, ''get_capacity'', [binName lo])]"
  by (simp add: getCapacity_def recording_def split: prod.splits any.splits)

lemma scan_calls:
  "snd (scan (recording r) lo ifc cs)
     = cs @ [(client lo, policy lo, key lo, packageName ifc, ''scan'', [binName lo])]"
  by (simp add: scan_def recording_def split: prod.splits any.splits)

section \<open>Errors of the executor\<close>

text \<open>
  C1. For every operation (destroy, size, getConfig, setCapacity, getCapacity, scan),
  when the executor returns a non-nil error, that very error value is what the caller
  gets, unchanged: it is not wrapped, not classified and not recovered from.
\<close>

theorem executor_error_returned_unchanged:
  "(Execute (client lo) (policy lo) (key lo) (packageName ifc) ''destroy'' [binName lo] w
      = ((r, Some e), w')
    \<longrightarrow> destroy Execute lo ifc w = (Some e, w'))
 \<and> (Execute (client lo) (policy lo) (key lo) (packageName ifc) ''size'' [binName lo] w
      = ((r, Some e), w')
    \<longrightarrow> size_lo Execute lo ifc w = (Inr (- 1, Some e), w'))
 \<and> (Execute (client lo) (policy lo) (key lo) (packageName ifc) ''get_config'' [binName lo] w
      = ((r, Some e), w')
    \<longrightarrow> getConfig Execute lo ifc w = (Inr (None, Some e), w'))
 \<and> (Execute (client lo) (policy lo) (key lo) (packageName ifc) ''set_capacity''
        [binName lo, IntegerValue n] w
      = ((r, Some e), w')
    \<longrightarrow> setCapacity Execute lo ifc n w = (Some e, w'))
 \<and> (Execute (client lo) (policy lo) (key lo) (packageName ifc) ''get_capacity'' [binName lo] w
      = ((r, Some e), w')
    \<longrightarrow> getCapacity Execute lo ifc w = (Inr (- 1, Some e), w'))
 \<and> (Execute (client lo) (policy lo) (key lo) (packageName ifc) ''scan'' [binName lo] w
      = ((r, Some e), w')
    \<longrightarrow> scan Execute lo ifc w = (Inr (None, Some e), w'))"
  by (simp add: destroy_def size_lo_def getConfig_def setCapacity_def getCapacity_def
      scan_def NewIntegerValue_def)

theorem executor_error_returned_unchanged_witness:
  "destroy (answering (ANil, Some ''bin not found''))
      (newLargeObject (1 :: nat) (2 :: nat) (3 :: nat) ''mylist'' [])
      \<lparr> packageName = ''llist'' \<rparr> (0 :: nat)
     = (Some ''bin not found'', 0)
 \<and> size_lo (answering (ANil, Some ''bin not found''))
      (newLargeObject (1 :: nat) (2 :: nat) (3 :: nat) ''mylist'' [])
      \<lparr> packageName = ''llist'' \<rparr> (0 :: nat)
     = (Inr (- 1, Some ''bin not found''), 0)
 \<and> getConfig (answering (ANil, Some ''bin not found''))
      (newLargeObject (1 :: nat) (2 :: nat) (3 :: nat) ''mylist'' [])
      \<lparr> packageName = ''llist'' \<rparr> (0 :: nat)
     = (Inr (None, Some ''bin not found''), 0)
 \<and> setCapacity (answering (ANil, Some ''bin not found''))
      (newLargeObject (1 :: nat) (2 :: nat) (3 :: nat) ''mylist'' [])
      \<lparr> packageName = ''llist'' \<rparr> 100 (0 :: nat)
     = (Some ''bin not found'', 0)
 \<and> getCapacity (answering (ANil, Some ''bin not found''))
      (newLargeObject (1 :: nat) (2 :: nat) (3 :: nat) ''mylist'' [])
      \<lparr> packageName = ''llist'' \<rparr> (0 :: nat)
     = (Inr (- 1, Some ''bin not found''), 0)
 \<and> scan (answering (ANil, Some ''bin not found''))
      (newLargeObject (1 :: nat) (2 :: nat) (3 :: nat) ''mylist'' [])
      \<lparr> packageName = ''llist'' \<rparr> (0 :: nat)
     = (Inr (None, Some ''bin not found''), 0)"
  using executor_error_returned_unchanged
    [of "answering (ANil, Some ''bin not found'')"
        "newLargeObject (1 :: nat) (2 :: nat) (3 :: nat) ''mylist'' []"
        "\<lparr> packageName = ''llist'' \<rparr>" "0 :: nat" ANil "''bin not found''" "0 :: nat" 100]
  by (simp add: answering_def)

text \<open>
  C9. When the executor returns a non-nil error, \<open>size\<close> and \<open>getCapacity\<close> return the
  integer -1, and not 0, next to that error; so whenever one of them returns an error,
  the integer returned with it is -1.
\<close>

theorem error_sentinel_is_minus_one:
  "(Execute (client lo) (policy lo) (key lo) (packageName ifc) ''size'' [binName lo] w
      = ((r, Some e), w')
    \<longrightarrow> size_lo Execute lo ifc w = (Inr (- 1, Some e), w')
      \<and> size_lo Execute lo ifc w \<noteq> (Inr (0, Some e), w'))
 \<and> (Execute (client lo) (policy lo) (key lo) (packageName ifc) ''get_capacity'' [binName lo] w
      = ((r, Some e), w')
    \<longrightarrow> getCapacity Execute lo ifc w = (Inr (- 1, Some e), w')
      \<and> getCapacity Execute lo ifc w \<noteq> (Inr (0, Some e), w'))
 \<and> (size_lo Execute lo ifc w = (Inr (k, Some e), w') \<longrightarrow> k = - 1)
 \<and> (getCapacity Execute lo ifc w = (Inr (k, Some e), w') \<longrightarrow> k = - 1)"
  by (auto simp add: size_lo_def getCapacity_def split: prod.splits if_splits any.splits)

theorem error_sentinel_is_minus_one_witness:
  "size_lo (answering (AInt 7, Some ''timeout''))
      (newLargeObject (1 :: nat) (2 :: nat) (3 :: nat) ''mylist'' [])
      \<lparr> packageName = ''lstack'' \<rparr> (0 :: nat)
     = (Inr (- 1, Some ''timeout''), 0)
 \<and> getCapacity (answering (AInt 7, Some ''timeout''))
      (newLargeObject (1 :: nat) (2 :: nat) (3 :: nat) ''mylist'' [])
      \<lparr> packageName = ''lstack'' \<rparr> (0 :: nat)
     = (Inr (- 1, Some ''timeout''), 0)
 \<and> (- 1 :: go_int) \<noteq> 0"
  using error_sentinel_is_minus_one
    [of "answering (AInt 7, Some ''timeout'')"
        "newLargeObject (1 :: nat) (2 :: nat) (3 :: nat) ''mylist'' []"
        "\<lparr> packageName = ''lstack'' \<rparr>" "0 :: nat" "AInt 7" "''timeout''" "0 :: nat" "- 1"]
  by (simp add: answering_def)

section \<open>Absent results\<close>

text \<open>
  C2. \<open>size\<close>: whenever the executor returns an absent (nil) result and no error,
  \<open>size\<close> returns exactly 0 and no error.
\<close>

theorem size_absent_is_zero:
  assumes "Execute (client lo) (policy lo) (key lo) (packageName ifc) ''size'' [binName lo] w
             = ((ANil, None), w')"
  shows "size_lo Execute lo ifc w = (Inr (0, None), w')"
  using assms by (simp add: size_lo_def)

theorem size_absent_is_zero_witness:
  "size_lo (answering (ANil, None :: string option))
      (newLargeObject (1 :: nat) (2 :: nat) (3 :: nat) ''mylist'' [])
      \<lparr> packageName = ''llist'' \<rparr> (0 :: nat)
   = (Inr (0, None), 0)"
  using size_absent_is_zero
    [of "answering (ANil, None :: string option)"
        "newLargeObject (1 :: nat) (2 :: nat) (3 :: nat) ''mylist'' []"
        "\<lparr> packageName = ''llist'' \<rparr>" "0 :: nat" "0 :: nat"]
  by (simp add: answering_def)

text \<open>
  C3. \<open>getCapacity\<close>: whenever the executor returns an absent (nil) result and no
  error, the unchecked conversion to an integer fails: the method panics. It returns
  neither a defaulted 0 nor an error value; the zero default of \<open>size\<close> is not applied.
\<close>

theorem getCapacity_absent_panics:
  assumes "Execute (client lo) (policy lo) (key lo) (packageName ifc) ''get_capacity''
             [binName lo] w
             = ((ANil, None), w')"
  shows "getCapacity Execute lo ifc w = (Inl InterfaceConversion, w')
       \<and> (\<forall>k err. getCapacity Execute lo ifc w \<noteq> (Inr (k, err), w'))"
  using assms by (simp add: getCapacity_def)

theorem getCapacity_absent_panics_witness:
  "getCapacity (answering (ANil, None :: string option))
      (newLargeObject (1 :: nat) (2 :: nat) (3 :: nat) ''mylist'' [])
      \<lparr> packageName = ''llist'' \<rparr> (0 :: nat)
     = (Inl InterfaceConversion, 0)
 \<and> size_lo (answering (ANil, None :: string option))
      (newLargeObject (1 :: nat) (2 :: nat) (3 :: nat) ''mylist'' [])
      \<lparr> packageName = ''llist'' \<rparr> (0 :: nat)
     = (Inr (0, None), 0)"
  using getCapacity_absent_panics
    [of "answering (ANil, None :: string option)"
        "newLargeObject (1 :: nat) (2 :: nat) (3 :: nat) ''mylist'' []"
        "\<lparr> packageName = ''llist'' \<rparr>" "0 :: nat" "0 :: nat"]
  by (simp add: answering_def size_lo_def)

text \<open>
  C4. \<open>getConfig\<close>: whenever the executor returns an absent (nil) result and no error,
  \<open>getConfig\<close> returns an absent (nil) mapping, which is not an empty mapping, and no
  error.
\<close>

theorem getConfig_absent_is_nil_map:
  assumes "Execute (client lo) (policy lo) (key lo) (packageName ifc) ''get_config''
             [binName lo] w
             = ((ANil, None), w')"
  shows "getConfig Execute lo ifc w = (Inr (None, None), w')
       \<and> getConfig Execute lo ifc w \<noteq> (Inr (Some [], None), w')"
  using assms by (simp add: getConfig_def)

theorem getConfig_absent_is_nil_map_witness:
  "getConfig (answering (ANil, None :: string option))
      (newLargeObject (1 :: nat) (2 :: nat) (3 :: nat) ''mylist'' [])
      \<lparr> packageName = ''lmap'' \<rparr> (0 :: nat)
   = (Inr (None, None), 0)"
  using getConfig_absent_is_nil_map
    [of "answering (ANil, None :: string option)"
        "newLargeObject (1 :: nat) (2 :: nat) (3 :: nat) ''mylist'' []"
        "\<lparr> packageName = ''lmap'' \<rparr>" "0 :: nat" "0 :: nat"]
  by (simp add: answering_def)

text \<open>
  C5. \<open>scan\<close>: whenever the executor returns an absent (nil) result and no error,
  \<open>scan\<close> returns an empty sequence, which is not an absent one, and no error; in this
  it differs from \<open>getConfig\<close>.
\<close>

theorem scan_absent_is_empty_slice:
  assumes "Execute (client lo) (policy lo) (key lo) (packageName ifc) ''scan'' [binName lo] w
             = ((ANil, None), w')"
  shows "scan Execute lo ifc w = (Inr (Some [], None), w')
       \<and> scan Execute lo ifc w \<noteq> (Inr (None, None), w')"
  using assms by (simp add: scan_def)

theorem scan_absent_is_empty_slice_witness:
  "scan (answering (ANil, None :: string option))
      (newLargeObject (1 :: nat) (2 :: nat) (3 :: nat) ''mylist'' [])
      \<lparr> packageName = ''lset'' \<rparr> (0 :: nat)
   = (Inr (Some [], None), 0)"
  using scan_absent_is_empty_slice
    [of "answering (ANil, None :: string option)"
        "newLargeObject (1 :: nat) (2 :: nat) (3 :: nat) ''mylist'' []"
        "\<lparr> packageName = ''lset'' \<rparr>" "0 :: nat" "0 :: nat"]
  by (simp add: answering_def)

section \<open>The constructor\<close>

text \<open>
  C6. A handle built with the empty initialization-module name stores the explicit
  null ("no module") value, and that value differs from the string value stored for
  any non-empty module name.
\<close>

theorem empty_module_is_null:
  assumes "m \<noteq> []"
  shows "userModule (newLargeObject cl pol ky b []) = NullValue
       \<and> userModule (newLargeObject cl pol ky b m) = StringValue m
       \<and> userModule (newLargeObject cl pol ky b []) \<noteq> userModule (newLargeObject cl pol ky b m)"
  using assms by (simp add: newLargeObject_def NewNullValue_def NewStringValue_def)

theorem empty_module_is_null_witness:
  "userModule (newLargeObject (1 :: nat) (2 :: nat) (3 :: nat) ''mylist'' []) = NullValue
 \<and> userModule (newLargeObject (1 :: nat) (2 :: nat) (3 :: nat) ''mylist'' ''init'')
     = StringValue ''init''"
  using empty_module_is_null [of "''init''" "1 :: nat" "2 :: nat" "3 :: nat" "''mylist''"]
  by simp

text \<open>
  C10. The constructor wraps the bin name as a string value whatever it is: the empty
  bin name is stored as the empty string value and not as the null value. The null
  encoding is for the user module only.
\<close>

theorem bin_name_always_string:
  "binName (newLargeObject cl pol ky b m) = StringValue b
 \<and> binName (newLargeObject cl pol ky [] m) = StringValue []
 \<and> binName (newLargeObject cl pol ky [] m) \<noteq> NullValue
 \<and> userModule (newLargeObject cl pol ky b []) = NullValue"
  by (simp add: newLargeObject_def NewNullValue_def NewStringValue_def)

section \<open>Marshalling\<close>

text \<open>
  C7. Each operation calls the executor once, with its fixed function name
  ("destroy", "size", "get_config", "set_capacity", "get_capacity", "scan"), the
  package name given by the concrete kind, and the stored bin as the only argument;
  \<open>setCapacity\<close> passes, after the bin, the capacity as an integer value. Stated on
  the recording stub: whatever the calls before and whatever the stub answers, the
  operation appends exactly that call.
\<close>

theorem operations_call_executor_with_fixed_names:
  "snd (destroy (recording r) lo ifc cs)
     = cs @ [(client lo, policy lo, key lo, packageName ifc, ''destroy'', [binName lo])]
 \<and> snd (size_lo (recording r) lo ifc cs)
     = cs @ [(client lo, policy lo, key lo, packageName ifc, ''size'', [binName lo])]
 \<and> snd (getConfig (recording r) lo ifc cs)
     = cs @ [(client lo, policy lo, key lo, packageName ifc, ''get_config'', [binName lo])]
 \<and> snd (setCapacity (recording r) lo ifc n cs)
     = cs @ [(client lo, policy lo, key lo, packageName ifc, ''set_capacity'',
              [binName lo, IntegerValue n])]
 \<and> snd (getCapacity (recording r) lo ifc cs)
     = cs @ [(client lo, policy lo, key lo, packageName ifc, ''get_capacity'', [binName lo])]
 \<and> snd (scan (recording r) lo ifc cs)
     = cs @ [(client lo, policy lo, key lo, packageName ifc, ''scan'', [binName lo])]"
  by (simp only: destroy_calls size_calls getConfig_calls setCapacity_calls
      getCapacity_calls scan_calls simp_thms)

text \<open>
  C8. Two handles built from the same client, policy, key, bin name and module name
  make, for every operation, the same call of the executor (policy, key, package name,
  function name, bin and further arguments). The call is given here as a function of
  the parameters of the constructor, of the kind and of the operation alone: each of
  the two handles, in a run of its own (its own answers of the executor, its own
  earlier calls), appends that one call, with the client, policy and key as given
  and the bin name as a string value.
\<close>

theorem marshalling_is_deterministic:
  fixes r1 r2 :: "('c, 'p, 'k) call \<Rightarrow> any \<times> 'e option"
    and lo1 lo2 :: "('c, 'p, 'k) baseLargeObject"
  assumes "lo1 = newLargeObject cl pol ky b m"
      and "lo2 = newLargeObject cl pol ky b m"
  shows "snd (destroy (recording r1) lo1 ifc cs1)
           = cs1 @ [(cl, pol, ky, packageName ifc, ''destroy'', [StringValue b])]
       \<and> snd (destroy (recording r2) lo2 ifc cs2)
           = cs2 @ [(cl, pol, ky, packageName ifc, ''destroy'', [StringValue b])]
       \<and> snd (size_lo (recording r1) lo1 ifc cs1)
           = cs1 @ [(cl, pol, ky, packageName ifc, ''size'', [StringValue b])]
       \<and> snd (size_lo (recording r2) lo2 ifc cs2)
           = cs2 @ [(cl, pol, ky, packageName ifc, ''size'', [StringValue b])]
       \<and> snd (getConfig (recording r1) lo1 ifc cs1)
           = cs1 @ [(cl, pol, ky, packageName ifc, ''get_config'', [StringValue b])]
       \<and> snd (getConfig (recording r2) lo2 ifc cs2)
           = cs2 @ [(cl, pol, ky, packageName ifc, ''get_config'', [StringValue b])]
       \<and> snd (setCapacity (recording r1) lo1 ifc n cs1)
           = cs1 @ [(cl, pol, ky, packageName ifc, ''set_capacity'', [StringValue b, IntegerValue n])]
       \<and> snd (setCapacity (recording r2) lo2 ifc n cs2)
           = cs2 @ [(cl, pol, ky, packageName ifc, ''set_capacity'', [StringValue b, IntegerValue n])]
       \<and> snd (getCapacity (recording r1) lo1 ifc cs1)
           = cs1 @ [(cl, pol, ky, packageName ifc, ''get_capacity'', [StringValue b])]
       \<and> snd (getCapacity (recording r2) lo2 ifc cs2)
           = cs2 @ [(cl, pol, ky, packageName ifc, ''get_capacity'', [StringValue b])]
       \<and> snd (scan (recording r1) lo1 ifc cs1)
           = cs1 @ [(cl, pol, ky, packageName ifc, ''scan'', [StringValue b])]
       \<and> snd (scan (recording r2) lo2 ifc cs2)
           = cs2 @ [(cl, pol, ky, packageName ifc, ''scan'', [StringValue b])]"
  unfolding assms
  by (simp add: destroy_calls size_calls getConfig_calls setCapacity_calls
      getCapacity_calls scan_calls newLargeObject_def NewStringValue_def)

theorem marshalling_is_deterministic_witness:
  "snd (destroy (recording (\<lambda>c. (ANil, None :: string option)))
        (newLargeObject (1 :: nat) (2 :: nat) (3 :: nat) ''mylist'' ''init'')
        \<lparr> packageName = ''lstack'' \<rparr> [])
     = [(1, 2, 3, ''lstack'', ''destroy'', [StringValue ''mylist''])]
 \<and> snd (destroy (recording (\<lambda>c. (AInt 5, Some ''timeout'')))
        (newLargeObject (1 :: nat) (2 :: nat) (3 :: nat) ''mylist'' ''init'')
        \<lparr> packageName = ''lstack'' \<rparr> [(1, 2, 3, ''lstack'', ''destroy'', [StringValue ''old''])])
     = [(1, 2, 3, ''lstack'', ''destroy'', [StringValue ''old''])] @ [(1, 2, 3, ''lstack'', ''destroy'', [StringValue ''mylist''])]
 \<and> snd (size_lo (recording (\<lambda>c. (ANil, None :: string option)))
        (newLargeObject (1 :: nat) (2 :: nat) (3 :: nat) ''mylist'' ''init'')
        \<lparr> packageName = ''lstack'' \<rparr> [])
     = [(1, 2, 3, ''lstack'', ''size'', [StringValue ''mylist''])]
 \<and> snd (size_lo (recording (\<lambda>c. (AInt 5, Some ''timeout'')))
        (newLargeObject (1 :: nat) (2 :: nat) (3 :: nat) ''mylist'' ''init'')
        \<lparr> packageName = ''lstack'' \<rparr> [(1, 2, 3, ''lstack'', ''destroy'', [StringValue ''old''])])
     = [(1, 2, 3, ''lstack'', ''destroy'', [StringValue ''old''])] @ [(1, 2, 3, ''lstack'', ''size'', [StringValue ''mylist''])]
 \<and> snd (getConfig (recording (\<lambda>c. (ANil, None :: string option)))
        (newLargeObject (1 :: nat) (2 :: nat) (3 :: nat) ''mylist'' ''init'')
        \<lparr> packageName = ''lstack'' \<rparr> [])
     = [(1, 2, 3, ''lstack'', ''get_config'', [StringValue ''mylist''])]
 \<and> snd (getConfig (recording (\<lambda>c. (AInt 5, Some ''timeout'')))
        (newLargeObject (1 :: nat) (2 :: nat) (3 :: nat) ''mylist'' ''init'')
        \<lparr> packageName = ''lstack'' \<rparr> [(1, 2, 3, ''lstack'', ''destroy'', [StringValue ''old''])])
     = [(1, 2, 3, ''lstack'', ''destroy'', [StringValue ''old''])] @ [(1, 2, 3, ''lstack'', ''get_config'', [StringValue ''mylist''])]
 \<and> snd (setCapacity (recording (\<lambda>c. (ANil, None :: string option)))
        (newLargeObject (1 :: nat) (2 :: nat) (3 :: nat) ''mylist'' ''init'')
        \<lparr> packageName = ''lstack'' \<rparr> 100 [])
     = [(1, 2, 3, ''lstack'', ''set_capacity'', [StringValue ''mylist'', IntegerValue 100])]
 \<and> snd (setCapacity (recording (\<lambda>c. (AInt 5, Some ''timeout'')))
        (newLargeObject (1 :: nat) (2 :: nat) (3 :: nat) ''mylist'' ''init'')
        \<lparr> packageName = ''lstack'' \<rparr> 100 [(1, 2, 3, ''lstack'', ''destroy'', [StringValue ''old''])])
     = [(1, 2, 3, ''lstack'', ''destroy'', [StringValue ''old''])] @ [(1, 2, 3, ''lstack'', ''set_capacity'', [StringValue ''mylist'', IntegerValue 100])]
 \<and> snd (getCapacity (recording (\<lambda>c. (ANil, None :: string option)))
        (newLargeObject (1 :: nat) (2 :: nat) (3 :: nat) ''mylist'' ''init'')
        \<lparr> packageName = ''lstack'' \<rparr> [])
     = [(1, 2, 3, ''lstack'', ''get_capacity'', [StringValue ''mylist''])]
 \<and> snd (getCapacity (recording (\<lambda>c. (AInt 5, Some ''timeout'')))
        (newLargeObject (1 :: nat) (2 :: nat) (3 :: nat) ''mylist'' ''init'')
        \<lparr> packageName = ''lstack'' \<rparr> [(1, 2, 3, ''lstack'', ''destroy'', [StringValue ''old''])])
     = [(1, 2, 3, ''lstack'', ''destroy'', [StringValue ''old''])] @ [(1, 2, 3, ''lstack'', ''get_capacity'', [StringValue ''mylist''])]
 \<and> snd (scan (recording (\<lambda>c. (ANil, None :: string option)))
        (newLargeObject (1 :: nat) (2 :: nat) (3 :: nat) ''mylist'' ''init'')
        \<lparr> packageName = ''lstack'' \<rparr> [])
     = [(1, 2, 3, ''lstack'', ''scan'', [StringValue ''mylist''])]
 \<and> snd (scan (recording (\<lambda>c. (AInt 5, Some ''timeout'')))
        (newLargeObject (1 :: nat) (2 :: nat) (3 :: nat) ''mylist'' ''init'')
        \<lparr> packageName = ''lstack'' \<rparr> [(1, 2, 3, ''lstack'', ''destroy'', [StringValue ''old''])])
     = [(1, 2, 3, ''lstack'', ''destroy'', [StringValue ''old''])] @ [(1, 2, 3, ''lstack'', ''scan'', [StringValue ''mylist''])]"
  using marshalling_is_deterministic
    [where ?lo1.0 = "newLargeObject (1 :: nat) (2 :: nat) (3 :: nat) ''mylist'' ''init''"
       and ?lo2.0 = "newLargeObject (1 :: nat) (2 :: nat) (3 :: nat) ''mylist'' ''init''"
       and cl = "1 :: nat" and pol = "2 :: nat" and ky = "3 :: nat"
       and b = "''mylist''" and m = "''init''"
       and ?r1.0 = "\<lambda>c. (ANil, None :: string option)"
       and ?r2.0 = "\<lambda>c. (AInt 5, Some ''timeout'')"
       and ifc = "\<lparr> packageName = ''lstack'' \<rparr>" and n = 100
       and ?cs1.0 = "[]"
       and ?cs2.0 = "[(1, 2, 3, ''lstack'', ''destroy'', [StringValue ''old''])]"]
  by simp

end
